theory Spec2Isabelle
  imports Main "HOL-Library.Multiset"
begin

section \<open>Data model of the FTP client session (wpull/ftp/client.py)\<close>

text \<open>
  Byte strings are lists of 8-bit characters; decoding as latin-1 maps every byte to the
  character with the same code, so it is the identity on this representation.
\<close>

type_synonym bytes = string

record URLInfo =
  scheme :: string
  hostname :: string
  port :: nat
  path :: string
  username :: "string option"
  password :: "string option"

record Request =
  url_info :: URLInfo
  address :: "(string \<times> nat) option"

record Reply =
  code :: int
  reply_text :: string

datatype Command = Command string string

datatype Connection = Connection (conn_address: "string \<times> nat") (conn_ident: nat)

datatype file_kind = kind_file | kind_directory | kind_link | kind_unknown

datatype FileEntry = FileEntry string file_kind "nat option"

text \<open>
  The exceptions that travel through the session. \<open>FTPServerError\<close> carries its message and
  its \<open>reply_code\<close> (absent when the exception was built without one); \<open>OtherError\<close> stands
  for every exception that is not an \<open>FTPServerError\<close> (connection, protocol, cancellation).
\<close>

datatype error =
    AssertionError
  | AttributeError
  | FTPServerError string "int option"
  | OtherError string

fun is_FTPServerError :: "error \<Rightarrow> bool" where
  "is_FTPServerError (FTPServerError m c) = True"
| "is_FTPServerError e = False"

fun reply_code :: "error \<Rightarrow> int option" where
  "reply_code (FTPServerError m c) = c"
| "reply_code e = None"

subsection \<open>The body: a seekable, truncatable byte sink\<close>

record Body =
  content :: bytes
  pos :: nat

definition body_seek :: "nat \<Rightarrow> Body \<Rightarrow> Body" where
  "body_seek n b = b\<lparr>pos := n\<rparr>"

text \<open>\<open>truncate()\<close> without a size cuts (or zero-extends) the file at the current position.\<close>

definition body_truncate :: "Body \<Rightarrow> Body" where
  "body_truncate b =
     b\<lparr>content := take (pos b) (content b) @ replicate (pos b - length (content b)) (CHR 0x00)\<rparr>"

definition body_write :: "bytes \<Rightarrow> Body \<Rightarrow> Body" where
  "body_write d b =
     (if d = [] then b
      else b\<lparr>content := take (pos b) (content b)
                        @ replicate (pos b - length (content b)) (CHR 0x00)
                        @ d @ drop (pos b + length d) (content b),
             pos := pos b + length d\<rparr>)"

text \<open>\<open>read()\<close> returns everything from the position on and leaves the position at the end.\<close>

definition body_read :: "Body \<Rightarrow> bytes \<times> Body" where
  "body_read b = (drop (pos b) (content b), b\<lparr>pos := max (pos b) (length (content b))\<rparr>)"

text \<open>\<open>Body(file)\<close>: a fresh, empty sink when no file is given, the given one otherwise.\<close>

definition new_Body :: "Body option \<Rightarrow> Body" where
  "new_Body file = (case file of None \<Rightarrow> \<lparr>content = [], pos = 0\<rparr> | Some f \<Rightarrow> f)"

record Response =
  request :: "Request option"
  body :: Body
  reply :: "Reply option"

record ListingResponse = Response +
  files :: "FileEntry list"

text \<open>
  \<open>Response()\<close> and \<open>ListingResponse()\<close> are created without request, body and reply; every
  path assigns \<open>response.body\<close> in \<open>_prepare_fetch\<close> before reading it, and the model starts
  the field with the empty sink.
\<close>

definition new_Response :: Response where
  "new_Response = \<lparr>request = None, body = \<lparr>content = [], pos = 0\<rparr>, reply = None\<rparr>"

definition new_ListingResponse :: ListingResponse where
  "new_ListingResponse =
     \<lparr>request = None, body = \<lparr>content = [], pos = 0\<rparr>, reply = None, files = []\<rparr>"

subsection \<open>Collaborators: the calls the session makes, and what they answer\<close>

text \<open>
  Every call on the connection pool, on a connection and on the commander is appended to
  the trace, in program order. A \<open>CheckOut\<close> records the connection it returned, or
  \<open>None\<close> when it raised.
\<close>

datatype event =
    CheckOut string nat "Connection option"
  | CheckIn Connection
  | Close Connection
  | Reconnect
  | Login string string
  | PassiveMode
  | Connect Connection
  | ReadStream Command

datatype direction = dir_command | dir_reply

datatype action = act_read | act_write

datatype stream_item = ControlData direction bytes | StreamData action bytes

datatype recorder_event =
    begin_control Request
  | request_control_data bytes
  | response_control_data bytes
  | pre_response Response
  | response_data bytes
  | response Response
  | end_control Response

text \<open>The two closures the session registers as observers.\<close>

datatype control_observer = Control_data_callback

datatype stream_observer = Data_callback

text \<open>
  The collaborators that are not part of the session are parameters: each answer may
  depend on everything the session has done so far (the trace). The two reply codes of
  \<open>ReplyCodes\<close> that the session compares with are parameters too.
\<close>

record env =
  pool_check_out :: "event list \<Rightarrow> string \<Rightarrow> nat \<Rightarrow> error + Connection"
  commander_reconnect :: "event list \<Rightarrow> (direction \<times> bytes) list \<times> error option"
  commander_login :: "event list \<Rightarrow> string \<Rightarrow> string \<Rightarrow> (direction \<times> bytes) list \<times> error option"
  commander_passive_mode :: "event list \<Rightarrow> (direction \<times> bytes) list \<times> (error + string \<times> nat)"
  connection_connect :: "event list \<Rightarrow> Connection \<Rightarrow> error option"
  commander_read_stream :: "event list \<Rightarrow> Command \<Rightarrow> stream_item list \<times> (error + Reply)"
  parse_machine_listing :: "string \<Rightarrow> error + FileEntry list"
  listing_parser :: "string \<Rightarrow> error + FileEntry list"
  syntax_error_command_unrecognized :: int
  command_not_implemented :: int

subsection \<open>The session object\<close>

text \<open>
  \<open>s_connection\<close>, \<open>s_control_stream\<close> and \<open>s_request\<close> are the fields \<open>_connection\<close>,
  \<open>_control_stream\<close> and \<open>_request\<close>; the control stream is represented by its observer
  list, and \<open>_commander\<close>, which only wraps the control stream, by the same field.
  \<open>s_recorder_session\<close> tells whether a recorder is configured; \<open>recorded\<close> is what the
  recorder has received, \<open>trace\<close> what the other collaborators have.
\<close>

record Session =
  s_connection :: "Connection option"
  s_control_stream :: "control_observer list option"
  s_request :: "Request option"
  s_recorder_session :: bool
  trace :: "event list"
  recorded :: "recorder_event list"

definition new_Session :: "bool \<Rightarrow> Session" where
  "new_Session recorder =
     \<lparr>s_connection = None, s_control_stream = None, s_request = None,
      s_recorder_session = recorder, trace = [], recorded = []\<rparr>"

definition log_event :: "event \<Rightarrow> Session \<Rightarrow> Session" where
  "log_event ev s = s\<lparr>trace := trace s @ [ev]\<rparr>"

text \<open>
  Modelled from the spec: the recorder (RecorderSink) is missing from the sources; its
  methods are fire-and-forget, so a call appends to what the recorder has received and
  returns.
\<close>

definition record_event :: "recorder_event \<Rightarrow> Session \<Rightarrow> Session" where
  "record_event r s = s\<lparr>recorded := recorded s @ [r]\<rparr>"

section \<open>The session's operations\<close>

subsection \<open>Observers\<close>

text \<open>
  The closure \<open>control_data_callback\<close> of \<open>_init_stream\<close>. Its assertion that the direction
  is \<open>command\<close> or \<open>reply\<close> holds for both values of the type.
\<close>

definition control_data_callback :: "direction \<Rightarrow> bytes \<Rightarrow> Session \<Rightarrow> Session" where
  "control_data_callback d data s =
     (if d = dir_reply then record_event (response_control_data data) s
      else record_event (request_control_data data) s)"

text \<open>The closure \<open>data_callback\<close> of \<open>_fetch_with_command\<close>.\<close>

definition data_callback :: "action \<Rightarrow> bytes \<Rightarrow> Session \<Rightarrow> Session" where
  "data_callback a data s = (if a = act_read then record_event (response_data data) s else s)"

text \<open>
  Modelled from the spec: ControlStream and DataStream are missing from the sources. A
  stream calls every registered observer, in order, with each piece of traffic: outgoing
  commands and incoming replies on the control stream, bytes read on the data stream.
\<close>

definition notify_control :: "direction \<Rightarrow> bytes \<Rightarrow> Session \<Rightarrow> Session" where
  "notify_control d data s =
     (case s_control_stream s of
        None \<Rightarrow> s
      | Some obs \<Rightarrow> foldl (\<lambda>st ob. control_data_callback d data st) s obs)"

definition notify_data :: "stream_observer list \<Rightarrow> action \<Rightarrow> bytes \<Rightarrow> Session \<Rightarrow> Session" where
  "notify_data obs a data s = foldl (\<lambda>st ob. data_callback a data st) s obs"

primrec control_traffic :: "(direction \<times> bytes) list \<Rightarrow> Session \<Rightarrow> Session" where
  "control_traffic [] s = s"
| "control_traffic (x # xs) s = control_traffic xs (notify_control (fst x) (snd x) s)"

subsection \<open>Stream initialisation and login\<close>

definition init_stream :: "env \<Rightarrow> Request \<Rightarrow> Session \<Rightarrow> (error + unit) \<times> Session" where
  "init_stream e req s =
     (if s_connection s \<noteq> None then (Inl AssertionError, s)
      else
        (case pool_check_out e (trace s) (hostname (url_info req)) (port (url_info req)) of
           Inl err \<Rightarrow>
             (Inl err,
              log_event (CheckOut (hostname (url_info req)) (port (url_info req)) None) s)
         | Inr c \<Rightarrow>
             (let s1 = (log_event
                          (CheckOut (hostname (url_info req)) (port (url_info req)) (Some c)) s)
                        \<lparr>s_connection := Some c, s_control_stream := Some [],
                         s_request := Some req\<rparr>
              in (Inr (),
                  if s_recorder_session s1
                  then s1\<lparr>s_control_stream := Some [Control_data_callback]\<rparr>
                  else s1))))"

text \<open>Python's \<open>x or default\<close> on an optional string: \<open>None\<close> and the empty string are false.\<close>

definition py_or :: "string option \<Rightarrow> string \<Rightarrow> string" where
  "py_or x d = (case x of None \<Rightarrow> d | Some v \<Rightarrow> if v = [] then d else v)"

definition log_in :: "env \<Rightarrow> Session \<Rightarrow> (error + unit) \<times> Session" where
  "log_in e s =
     (case s_request s of
        None \<Rightarrow> (Inl AttributeError, s)
      | Some r \<Rightarrow>
          (let usern = py_or (username (url_info r)) ''anonymous'';
               passw = py_or (password (url_info r)) ''-wpull@''
           in (case commander_reconnect e (trace s) of
                 (io, res) \<Rightarrow>
                   (let s1 = control_traffic io (log_event Reconnect s)
                    in (case res of
                          Some err \<Rightarrow> (Inl err, s1)
                        | None \<Rightarrow>
                            (case commander_login e (trace s1) usern passw of
                               (io2, res2) \<Rightarrow>
                                 (let s2 = control_traffic io2
                                             (log_event (Login usern passw) s1)
                                  in (case res2 of
                                        Some err \<Rightarrow> (Inl err, s2)
                                      | None \<Rightarrow> (Inr (), s2)))))))))"

subsection \<open>Releasing the control connection\<close>

text \<open>
  \<open>clean\<close> calls the pool's \<open>check_in\<close> and \<open>close\<close> the connection's \<open>close\<close>. Both callees
  are missing from the sources, so what the call answers is a parameter of the method: it
  is given everything the session has done so far and the connection, and answers \<open>None\<close>
  when the call returns and the exception when it raises. Neither method has a \<open>try\<close>
  statement, so an exception of the call leaves the method as it is.
\<close>

definition clean ::
  "(event list \<Rightarrow> Connection \<Rightarrow> error option) \<Rightarrow> Session \<Rightarrow> (error + unit) \<times> Session" where
  "clean check_in s =
     (case s_connection s of
        Some c \<Rightarrow>
          (case check_in (trace s) c of
             Some err \<Rightarrow> (Inl err, log_event (CheckIn c) s)
           | None \<Rightarrow> (Inr (), log_event (CheckIn c) s))
      | None \<Rightarrow> (Inr (), s))"

definition close ::
  "(event list \<Rightarrow> Connection \<Rightarrow> error option) \<Rightarrow> Session \<Rightarrow> (error + unit) \<times> Session" where
  "close connection_close s =
     (case s_connection s of
        Some c \<Rightarrow>
          (case connection_close (trace s) c of
             Some err \<Rightarrow> (Inl err, log_event (Close c) s)
           | None \<Rightarrow> (Inr (), log_event (Close c) s))
      | None \<Rightarrow> (Inr (), s))"

subsection \<open>Preparing and finishing a fetch\<close>

text \<open>
  The functions return, beside the result or the exception, every object they may have
  changed: the request, the response and the session. \<open>self._request\<close> and \<open>request\<close> are
  the same object after \<open>_init_stream\<close>, so the assignment of the address reaches both.
\<close>

definition prepare_fetch ::
  "env \<Rightarrow> Request \<Rightarrow> 'r Response_scheme \<Rightarrow> Body option
   \<Rightarrow> (Request \<Rightarrow> 'r Response_scheme \<Rightarrow> Body option) option \<Rightarrow> Session
   \<Rightarrow> (error + unit) \<times> Request \<times> 'r Response_scheme \<times> Session" where
  "prepare_fetch e req resp file callback s =
     (case init_stream e req s of
        (Inl err, s1) \<Rightarrow> (Inl err, req, resp, s1)
      | (Inr u, s1) \<Rightarrow>
          (case s_connection s1 of
             None \<Rightarrow> (Inl AttributeError, req, resp, s1)
           | Some c \<Rightarrow>
               (let req1 = req\<lparr>address := Some (conn_address c)\<rparr>;
                    s2 = s1\<lparr>s_request := Some req1\<rparr>;
                    s3 = (if s_recorder_session s2
                          then record_event (begin_control req1) s2 else s2)
                in (case log_in e s3 of
                      (Inl err, s4) \<Rightarrow> (Inl err, req1, resp, s4)
                    | (Inr u, s4) \<Rightarrow>
                        (let resp1 = resp\<lparr>request := Some req1\<rparr>;
                             file1 = (case callback of
                                        Some cb \<Rightarrow> cb req1 resp1
                                      | None \<Rightarrow> file);
                             resp2 = resp1\<lparr>body := new_Body file1\<rparr>;
                             s5 = (if s_recorder_session s4
                                   then record_event
                                          (pre_response (Response.truncate resp2)) s4
                                   else s4)
                         in (Inr (), req1, resp2, s5))))))"

definition clean_up_fetch ::
  "'r Response_scheme \<Rightarrow> Reply \<Rightarrow> Session \<Rightarrow> 'r Response_scheme \<times> Session" where
  "clean_up_fetch resp rep s =
     (let resp1 = resp\<lparr>body := body_seek 0 (body resp), reply := Some rep\<rparr>;
          s1 = (if s_recorder_session s
                then record_event (response (Response.truncate resp1)) s else s);
          s2 = (if s_recorder_session s1
                then record_event (end_control (Response.truncate resp1)) s1 else s1)
      in (resp1, s2))"

subsection \<open>The data transfer\<close>

text \<open>The closure \<open>connection_factory\<close>: one check-out from the pool.\<close>

definition connection_factory ::
  "env \<Rightarrow> string \<times> nat \<Rightarrow> Session \<Rightarrow> (error + Connection) \<times> Session" where
  "connection_factory e addr s =
     (case pool_check_out e (trace s) (fst addr) (snd addr) of
        Inl err \<Rightarrow> (Inl err, log_event (CheckOut (fst addr) (snd addr) None) s)
      | Inr c \<Rightarrow> (Inr c, log_event (CheckOut (fst addr) (snd addr) (Some c)) s))"

text \<open>
  Modelled from the spec: the commander's \<open>setup_data_stream\<close> is missing from the sources. It
  negotiates the address of the data channel, acquires the connection through the factory
  it is given, connects it and wraps it in a data stream (represented by its observer
  list). The second component of the result is the value of the variable
  \<open>data_connection\<close>, which the factory assigns once the check-out has returned.
\<close>

definition setup_data_stream ::
  "env \<Rightarrow> Session \<Rightarrow> (error + stream_observer list) \<times> Connection option \<times> Session" where
  "setup_data_stream e s =
     (case commander_passive_mode e (trace s) of
        (io, res) \<Rightarrow>
          (let s1 = control_traffic io (log_event PassiveMode s)
           in (case res of
                 Inl err \<Rightarrow> (Inl err, None, s1)
               | Inr addr \<Rightarrow>
                   (case connection_factory e addr s1 of
                      (Inl err, s2) \<Rightarrow> (Inl err, None, s2)
                    | (Inr c, s2) \<Rightarrow>
                        (case connection_connect e (trace s2) c of
                           Some err \<Rightarrow> (Inl err, Some c, log_event (Connect c) s2)
                         | None \<Rightarrow> (Inr [], Some c, log_event (Connect c) s2))))))"

text \<open>
  Modelled from the spec: the commander's \<open>read_stream\<close> is missing from the sources. It
  issues the command and copies the bytes read from the data stream into the file until
  the control channel signals completion, then returns the final reply or raises.
\<close>

fun transfer ::
  "stream_observer list \<Rightarrow> stream_item list \<Rightarrow> Body \<Rightarrow> Session \<Rightarrow> Body \<times> Session" where
  "transfer obs [] f s = (f, s)"
| "transfer obs (ControlData d data # xs) f s = transfer obs xs f (notify_control d data s)"
| "transfer obs (StreamData a data # xs) f s =
     transfer obs xs (if a = act_read then body_write data f else f) (notify_data obs a data s)"

definition read_stream ::
  "env \<Rightarrow> Command \<Rightarrow> Body \<Rightarrow> stream_observer list \<Rightarrow> Session
   \<Rightarrow> (error + Reply) \<times> Body \<times> Session" where
  "read_stream e command file data_stream s =
     (case commander_read_stream e (trace s) command of
        (items, res) \<Rightarrow>
          (case transfer data_stream items file (log_event (ReadStream command) s) of
             (file1, s1) \<Rightarrow> (res, file1, s1)))"

text \<open>
  The \<open>try\<close> block of \<open>_fetch_with_command\<close>: its outcome, and the variables
  \<open>data_connection\<close> and \<open>data_stream\<close> as the \<open>finally\<close> block finds them.
\<close>

text \<open>
  Modelled from the spec: the connection's \<open>close\<close> and the pool's \<open>check_in\<close> are missing from
  the sources. For the release of the data connection in the \<open>finally\<close> block the interface
  of the spec is taken: it gives the two calls no result and no failure, so each is an
  event of the trace and returns.
\<close>

definition fetch_with_command_try ::
  "env \<Rightarrow> Command \<Rightarrow> Body \<Rightarrow> Session
   \<Rightarrow> (error + Reply) \<times> Connection option \<times> stream_observer list option \<times> Body \<times> Session" where
  "fetch_with_command_try e command file s =
     (case setup_data_stream e s of
        (Inl err, data_connection, s1) \<Rightarrow> (Inl err, data_connection, None, file, s1)
      | (Inr ds, data_connection, s1) \<Rightarrow>
          (let ds1 = (if s_recorder_session s1 then ds @ [Data_callback] else ds)
           in (case read_stream e command file ds1 s1 of
                 (res, file1, s2) \<Rightarrow> (res, data_connection, Some ds1, file1, s2))))"

definition fetch_with_command ::
  "env \<Rightarrow> Command \<Rightarrow> Body \<Rightarrow> Session \<Rightarrow> (error + Reply) \<times> Body \<times> Session" where
  "fetch_with_command e command file s =
     (case fetch_with_command_try e command file s of
        (res, data_connection, data_stream, file1, s1) \<Rightarrow>
          (let data_stream1 = (case data_stream of
                                 Some ds \<Rightarrow> Some ([] :: stream_observer list)
                               | None \<Rightarrow> None);
               s2 = (case data_connection of
                       Some c \<Rightarrow> log_event (CheckIn c) (log_event (Close c) s1)
                     | None \<Rightarrow> s1)
           in (res, file1, s2)))"

subsection \<open>Listings\<close>

text \<open>
  \<open>parse_machine_listing\<close> and the \<open>ListingParser\<close> are parameters: they decode the whole
  body, read from its start, into entries, or raise.
\<close>

definition get_machine_listing ::
  "env \<Rightarrow> Request \<Rightarrow> ListingResponse \<Rightarrow> Session
   \<Rightarrow> (error + Reply) \<times> ListingResponse \<times> Session" where
  "get_machine_listing e req resp s =
     (case fetch_with_command e (Command ''MLSD'' (path (url_info req))) (body resp) s of
        (Inl err, b, s1) \<Rightarrow> (Inl err, resp\<lparr>body := b\<rparr>, s1)
      | (Inr rep, b, s1) \<Rightarrow>
          (case body_read (body_seek 0 b) of
             (data, b1) \<Rightarrow>
               (case parse_machine_listing e data of
                  Inl err \<Rightarrow> (Inl err, resp\<lparr>body := b1\<rparr>, s1)
                | Inr listings \<Rightarrow> (Inr rep, resp\<lparr>body := b1, files := listings\<rparr>, s1))))"

definition get_list_listing ::
  "env \<Rightarrow> Request \<Rightarrow> ListingResponse \<Rightarrow> Session
   \<Rightarrow> (error + Reply) \<times> ListingResponse \<times> Session" where
  "get_list_listing e req resp s =
     (case fetch_with_command e (Command ''LIST'' (path (url_info req))) (body resp) s of
        (Inl err, b, s1) \<Rightarrow> (Inl err, resp\<lparr>body := b\<rparr>, s1)
      | (Inr rep, b, s1) \<Rightarrow>
          (case body_read (body_seek 0 b) of
             (data, b1) \<Rightarrow>
               (case listing_parser e data of
                  Inl err \<Rightarrow> (Inl err, resp\<lparr>body := b1\<rparr>, s1)
                | Inr listings \<Rightarrow> (Inr rep, resp\<lparr>body := b1, files := listings\<rparr>, s1))))"

subsection \<open>The two fetches\<close>

text \<open>
  A fetch returns the response or the exception, and with it the objects the caller can
  still reach: the request, the response object with its body, and the session.
\<close>

definition fetch ::
  "env \<Rightarrow> Request \<Rightarrow> Body option \<Rightarrow> (Request \<Rightarrow> Response \<Rightarrow> Body option) option \<Rightarrow> Session
   \<Rightarrow> (error + Response) \<times> Request \<times> Response \<times> Session" where
  "fetch e req file callback s =
     (case prepare_fetch e req new_Response file callback s of
        (Inl err, req1, resp1, s1) \<Rightarrow> (Inl err, req1, resp1, s1)
      | (Inr u, req1, resp1, s1) \<Rightarrow>
          (case fetch_with_command e (Command ''RETR'' (path (url_info req1))) (body resp1) s1 of
             (Inl err, b, s2) \<Rightarrow> (Inl err, req1, resp1\<lparr>body := b\<rparr>, s2)
           | (Inr rep, b, s2) \<Rightarrow>
               (case clean_up_fetch (resp1\<lparr>body := b\<rparr>) rep s2 of
                  (resp2, s3) \<Rightarrow> (Inr resp2, req1, resp2, s3))))"

text \<open>The \<open>try\<close> statement of \<open>fetch_file_listing\<close> with its \<open>except FTPServerError\<close> clause.\<close>

definition fetch_file_listing_try ::
  "env \<Rightarrow> Request \<Rightarrow> ListingResponse \<Rightarrow> Session
   \<Rightarrow> (error + Reply) \<times> ListingResponse \<times> Session" where
  "fetch_file_listing_try e req resp s =
     (case get_machine_listing e req resp s of
        (Inr rep, resp1, s1) \<Rightarrow> (Inr rep, resp1, s1)
      | (Inl err, resp1, s1) \<Rightarrow>
          (if is_FTPServerError err
           then (let resp2 = resp1\<lparr>body := body_truncate (body_seek 0 (body resp1))\<rparr>
                 in (if reply_code err = Some (syntax_error_command_unrecognized e)
                        \<or> reply_code err = Some (command_not_implemented e)
                     then get_list_listing e req resp2 s1
                     else (Inl err, resp2, s1)))
           else (Inl err, resp1, s1)))"

definition fetch_file_listing ::
  "env \<Rightarrow> Request \<Rightarrow> Body option
   \<Rightarrow> (Request \<Rightarrow> ListingResponse \<Rightarrow> Body option) option \<Rightarrow> Session
   \<Rightarrow> (error + ListingResponse) \<times> Request \<times> ListingResponse \<times> Session" where
  "fetch_file_listing e req file callback s =
     (case prepare_fetch e req new_ListingResponse file callback s of
        (Inl err, req1, resp1, s1) \<Rightarrow> (Inl err, req1, resp1, s1)
      | (Inr u, req1, resp1, s1) \<Rightarrow>
          (case fetch_file_listing_try e req1 resp1 s1 of
             (Inl err, resp2, s2) \<Rightarrow> (Inl err, req1, resp2, s2)
           | (Inr rep, resp2, s2) \<Rightarrow>
               (case clean_up_fetch resp2 rep s2 of
                  (resp3, s3) \<Rightarrow> (Inr resp3, req1, resp3, s3))))"

section \<open>Observations on sessions and traces\<close>

text \<open>What a call has added to the trace of the session it started from.\<close>

definition new_events :: "Session \<Rightarrow> Session \<Rightarrow> event list" where
  "new_events s s' = drop (length (trace s)) (trace s')"



text \<open>
  Modelled from the spec: a pool that counts outstanding check-outs. The pool itself is
  missing from the sources; the count goes up with every check-out that returns a
  connection and down with every check-in.
\<close>

fun outstanding_step :: "int \<Rightarrow> event \<Rightarrow> int" where
  "outstanding_step n (CheckOut h p (Some c)) = n + 1"
| "outstanding_step n (CheckIn c) = n - 1"
| "outstanding_step n ev = n"

definition outstanding :: "event list \<Rightarrow> int" where
  "outstanding tr = foldl outstanding_step 0 tr"

fun command_of :: "event \<Rightarrow> Command option" where
  "command_of (ReadStream c) = Some c"
| "command_of ev = None"

definition commands_issued :: "event list \<Rightarrow> Command list" where
  "commands_issued tr = List.map_filter command_of tr"

fun login_of :: "event \<Rightarrow> (string \<times> string) option" where
  "login_of (Login u p) = Some (u, p)"
| "login_of ev = None"

definition logins :: "event list \<Rightarrow> (string \<times> string) list" where
  "logins tr = List.map_filter login_of tr"

text \<open>Every data transfer starts by negotiating a data channel: the attempts of a trace.\<close>

definition attempts :: "event list \<Rightarrow> nat" where
  "attempts tr = length (filter (\<lambda>ev. ev = PassiveMode) tr)"

text \<open>Two sessions that differ at most in what their recorder has received.\<close>

definition same_but_recorded :: "Session \<Rightarrow> Session \<Rightarrow> bool" where
  "same_but_recorded s s' \<longleftrightarrow> s' = s\<lparr>recorded := recorded s'\<rparr>"

text \<open>
  A session with everything that belongs to the recorder removed: the flag, what the
  recorder has received, and the observers on the control stream.
\<close>

text \<open>Two sessions with the same fields of the session object proper.\<close>

definition same_session :: "Session \<Rightarrow> Session \<Rightarrow> bool" where
  "same_session s s' \<longleftrightarrow>
     s_connection s' = s_connection s \<and> s_control_stream s' = s_control_stream s
     \<and> s_request s' = s_request s \<and> s_recorder_session s' = s_recorder_session s"

definition erase :: "Session \<Rightarrow> Session" where
  "erase s =
     s\<lparr>s_recorder_session := False, recorded := [],
       s_control_stream := map_option (\<lambda>obs. []) (s_control_stream s)\<rparr>"

text \<open>The fallback test of \<open>fetch_file_listing\<close> on the reply code of a caught error.\<close>

definition fallback_eligible :: "env \<Rightarrow> int option \<Rightarrow> bool" where
  "fallback_eligible e c \<longleftrightarrow>
     c = Some (syntax_error_command_unrecognized e) \<or> c = Some (command_not_implemented e)"

definition empty_body :: Body where
  "empty_body = \<lparr>content = [], pos = 0\<rparr>"

text \<open>The bytes a transfer copies into the file: what was read from the data stream.\<close>

fun payload :: "stream_item list \<Rightarrow> bytes" where
  "payload [] = []"
| "payload (ControlData d data # xs) = payload xs"
| "payload (StreamData a data # xs) = (if a = act_read then data else []) @ payload xs"

text \<open>
  The calls one data transfer for \<open>command\<close> can make: the negotiation alone; a check-out
  that raises; a connection that is acquired, fails to connect and is released; or the
  full cycle with the command issued and the connection released.
\<close>

definition transfer_events :: "Command \<Rightarrow> event list \<Rightarrow> bool" where
  "transfer_events command evs \<longleftrightarrow>
     evs = [PassiveMode]
     \<or> (\<exists>h p. evs = [PassiveMode, CheckOut h p None])
     \<or> (\<exists>h p c. evs = [PassiveMode, CheckOut h p (Some c), Connect c, Close c, CheckIn c])
     \<or> (\<exists>h p c. evs = [PassiveMode, CheckOut h p (Some c), Connect c, ReadStream command,
                          Close c, CheckIn c])"


section \<open>A stub server for concrete runs\<close>

text \<open>
  The stub pool hands out a connection to the requested address, numbered by the length
  of the trace; login succeeds; the data channel is at 10.0.0.1:2021. The machine listing
  writes three bytes and then answers as \<open>mlsd\<close> says; the legacy listing and the file
  transfer write their payload and answer as \<open>other\<close> says.
\<close>

definition stub_read_stream ::
  "error + Reply \<Rightarrow> error + Reply \<Rightarrow> event list \<Rightarrow> Command
   \<Rightarrow> stream_item list \<times> (error + Reply)" where
  "stub_read_stream mlsd other h command =
     (case command of
        Command verb arg \<Rightarrow>
          (if verb = ''MLSD''
           then ([ControlData dir_command ''MLSD'', StreamData act_read ''abc''], mlsd)
           else ([ControlData dir_command verb, StreamData act_read ''hello'',
                  ControlData dir_reply ''226''], other)))"

definition stub_env :: "error + Reply \<Rightarrow> error + Reply \<Rightarrow> env" where
  "stub_env mlsd other =
     \<lparr>pool_check_out = (\<lambda>h host p. Inr (Connection (host, p) (length h))),
      commander_reconnect = (\<lambda>h. ([(dir_reply, ''220'')], None)),
      commander_login = (\<lambda>h u p. ([(dir_command, ''USER''), (dir_reply, ''230'')], None)),
      commander_passive_mode = (\<lambda>h. ([(dir_command, ''PASV'')], Inr (''10.0.0.1'', 2021))),
      connection_connect = (\<lambda>h c. None),
      commander_read_stream = stub_read_stream mlsd other,
      parse_machine_listing = (\<lambda>d. Inr [FileEntry d kind_file None]),
      listing_parser = (\<lambda>d. Inr [FileEntry d kind_unknown None]),
      syntax_error_command_unrecognized = 500,
      command_not_implemented = 502\<rparr>"

definition stub_request :: "string option \<Rightarrow> string option \<Rightarrow> Request" where
  "stub_request u p =
     \<lparr>url_info = \<lparr>scheme = ''ftp'', hostname = ''example.com'', port = 21, path = ''/pub'',
                   username = u, password = p\<rparr>,
      address = None\<rparr>"

definition ok_reply :: Reply where
  "ok_reply = \<lparr>code = 226, reply_text = ''Transfer complete''\<rparr>"

text \<open>The session after one successful fetch from the stub server, without a recorder.\<close>

definition stub_fetched :: Session where
  "stub_fetched =
     snd (snd (snd (fetch (stub_env (Inr ok_reply) (Inr ok_reply)) (stub_request None None)
                      None None (new_Session False))))"

text \<open>The listing call on the stub server: after preparation, and after the machine listing
  has written its three bytes and failed.\<close>

definition stub_prepared_request :: Request where
  "stub_prepared_request = (stub_request None None)\<lparr>address := Some (''example.com'', 21)\<rparr>"

definition stub_prepared_response :: ListingResponse where
  "stub_prepared_response =
     \<lparr>request = Some stub_prepared_request, body = \<lparr>content = [], pos = 0\<rparr>,
      reply = None, files = []\<rparr>"

definition stub_prepared_session :: Session where
  "stub_prepared_session =
     \<lparr>s_connection = Some (Connection (''example.com'', 21) 0), s_control_stream = Some [],
      s_request = Some stub_prepared_request, s_recorder_session = False,
      trace = [CheckOut ''example.com'' 21 (Some (Connection (''example.com'', 21) 0)),
               Reconnect, Login ''anonymous'' ''-wpull@''],
      recorded = []\<rparr>"

definition stub_failed_response :: ListingResponse where
  "stub_failed_response = stub_prepared_response\<lparr>body := \<lparr>content = ''abc'', pos = 3\<rparr>\<rparr>"

definition stub_failed_session :: Session where
  "stub_failed_session =
     stub_prepared_session
       \<lparr>trace := trace stub_prepared_session @
          [PassiveMode, CheckOut ''10.0.0.1'' 2021 (Some (Connection (''10.0.0.1'', 2021) 4)),
           Connect (Connection (''10.0.0.1'', 2021) 4), ReadStream (Command ''MLSD'' ''/pub''),
           Close (Connection (''10.0.0.1'', 2021) 4),
           CheckIn (Connection (''10.0.0.1'', 2021) 4)]\<rparr>"

text \<open>The same call after the legacy listing has written its payload and answered.\<close>

definition stub_legacy_response :: ListingResponse where
  "stub_legacy_response = stub_prepared_response\<lparr>body := \<lparr>content = ''hello'', pos = 5\<rparr>\<rparr>"

definition stub_legacy_session :: Session where
  "stub_legacy_session =
     stub_failed_session
       \<lparr>trace := trace stub_failed_session @
          [PassiveMode, CheckOut ''10.0.0.1'' 2021 (Some (Connection (''10.0.0.1'', 2021) 10)),
           Connect (Connection (''10.0.0.1'', 2021) 10), ReadStream (Command ''LIST'' ''/pub''),
           Close (Connection (''10.0.0.1'', 2021) 10),
           CheckIn (Connection (''10.0.0.1'', 2021) 10)]\<rparr>"

text \<open>
  Three ways the release calls can answer: a call that always returns; a pool that
  refuses, with a \<open>KeyError\<close>, the check-in of a connection it has not lent out (or has
  already got back); and a \<open>close\<close> that raises.
\<close>

definition stub_returns :: "event list \<Rightarrow> Connection \<Rightarrow> error option" where
  "stub_returns h c = None"

fun lent_step :: "Connection \<Rightarrow> bool \<Rightarrow> event \<Rightarrow> bool" where
  "lent_step c b (CheckOut h p r) = (if r = Some c then True else b)"
| "lent_step c b (CheckIn c') = (if c' = c then False else b)"
| "lent_step c b ev = b"

definition stub_strict_check_in :: "event list \<Rightarrow> Connection \<Rightarrow> error option" where
  "stub_strict_check_in h c =
     (if foldl (lent_step c) False h then None else Some (OtherError ''KeyError''))"

definition stub_close_raises :: "event list \<Rightarrow> Connection \<Rightarrow> error option" where
  "stub_close_raises h c = Some (OtherError ''OSError'')"

section \<open>Basic facts\<close>

lemma log_event_fields:
  "trace (log_event ev s) = trace s @ [ev]"
  "s_connection (log_event ev s) = s_connection s"
  "s_control_stream (log_event ev s) = s_control_stream s"
  "s_request (log_event ev s) = s_request s"
  "s_recorder_session (log_event ev s) = s_recorder_session s"
  "recorded (log_event ev s) = recorded s"
  by (simp_all add: log_event_def)

lemma record_event_fields:
  "trace (record_event r s) = trace s"
  "s_connection (record_event r s) = s_connection s"
  "s_control_stream (record_event r s) = s_control_stream s"
  "s_request (record_event r s) = s_request s"
  "s_recorder_session (record_event r s) = s_recorder_session s"
  by (simp_all add: record_event_def)

lemma sbr_refl: "same_but_recorded s s"
  by (simp add: same_but_recorded_def)

lemma sbr_trans:
  "same_but_recorded s s' \<Longrightarrow> same_but_recorded s' s'' \<Longrightarrow> same_but_recorded s s''"
  unfolding same_but_recorded_def
  by (metis Session.update_convs(6) Session.surjective Session.select_convs)

lemma sbr_fields:
  assumes "same_but_recorded s s'"
  shows "trace s' = trace s" "s_connection s' = s_connection s"
    "s_control_stream s' = s_control_stream s" "s_request s' = s_request s"
    "s_recorder_session s' = s_recorder_session s"
  using assms unfolding same_but_recorded_def
  by (metis Session.select_convs Session.surjective Session.update_convs(6))+

lemma record_event_sbr: "same_but_recorded s (record_event r s)"
  by (simp add: same_but_recorded_def record_event_def)

lemma control_data_callback_sbr: "same_but_recorded s (control_data_callback d x s)"
  by (simp add: same_but_recorded_def control_data_callback_def record_event_def)

lemma data_callback_sbr: "same_but_recorded s (data_callback d x s)"
  by (simp add: same_but_recorded_def data_callback_def record_event_def)

lemma foldl_sbr:
  assumes "\<And>st. same_but_recorded st (f st)"
  shows "same_but_recorded s (foldl (\<lambda>st ob. f st) s obs)"
proof (induction obs arbitrary: s)
  case Nil
  show ?case by (simp add: sbr_refl)
next
  case (Cons a obs)
  show ?case using sbr_trans[OF assms[of s] Cons.IH[of "f s"]] by simp
qed

lemma notify_control_sbr: "same_but_recorded s (notify_control d x s)"
  unfolding notify_control_def
  by (auto split: option.splits intro: sbr_refl foldl_sbr control_data_callback_sbr)

lemma notify_data_sbr: "same_but_recorded s (notify_data obs a x s)"
  unfolding notify_data_def by (rule foldl_sbr) (rule data_callback_sbr)

lemma control_traffic_sbr: "same_but_recorded s (control_traffic io s)"
proof (induction io arbitrary: s)
  case Nil
  show ?case by (simp add: sbr_refl)
next
  case (Cons a io)
  show ?case using sbr_trans[OF notify_control_sbr Cons.IH] by simp
qed

lemmas control_traffic_fields = sbr_fields[OF control_traffic_sbr]

lemma transfer_sbr: "transfer obs items f s = (f', s') \<Longrightarrow> same_but_recorded s s'"
proof (induction obs items f s rule: transfer.induct)
  case (1 obs f s)
  then show ?case by (simp add: sbr_refl)
next
  case (2 obs d data xs f s)
  then show ?case using sbr_trans[OF notify_control_sbr] by simp
next
  case (3 obs a data xs f s)
  then show ?case using sbr_trans[OF notify_data_sbr] by simp
qed

lemma transfer_trace: "transfer obs items f s = (f', s') \<Longrightarrow> trace s' = trace s"
  by (rule sbr_fields(1)[OF transfer_sbr])

text \<open>The definitions a concrete run unfolds.\<close>

lemmas run_defs = fetch_def fetch_file_listing_def fetch_file_listing_try_def prepare_fetch_def
  init_stream_def log_in_def clean_up_fetch_def fetch_with_command_def fetch_with_command_try_def
  setup_data_stream_def connection_factory_def read_stream_def get_machine_listing_def
  get_list_listing_def log_event_def record_event_def notify_control_def notify_data_def
  control_data_callback_def data_callback_def py_or_def body_seek_def body_truncate_def
  body_write_def body_read_def new_Body_def new_Response_def new_ListingResponse_def
  new_Session_def stub_env_def stub_read_stream_def stub_request_def ok_reply_def Let_def

lemma stub_fetched_connection:
  "s_connection stub_fetched = Some (Connection (''example.com'', 21) 0)"
  by (simp add: stub_fetched_def run_defs)

lemma stub_fetched_trace:
  "trace stub_fetched =
     [CheckOut ''example.com'' 21 (Some (Connection (''example.com'', 21) 0)), Reconnect,
      Login ''anonymous'' ''-wpull@'', PassiveMode,
      CheckOut ''10.0.0.1'' 2021 (Some (Connection (''10.0.0.1'', 2021) 4)),
      Connect (Connection (''10.0.0.1'', 2021) 4), ReadStream (Command ''RETR'' ''/pub''),
      Close (Connection (''10.0.0.1'', 2021) 4), CheckIn (Connection (''10.0.0.1'', 2021) 4)]"
  by (simp add: stub_fetched_def run_defs)

subsection \<open>What each operation adds to the trace\<close>

lemma same_session_refl: "same_session s s"
  by (simp add: same_session_def)
lemma same_session_trans:
  "same_session s s' \<Longrightarrow> same_session s' s'' \<Longrightarrow> same_session s s''"
  by (simp add: same_session_def)
lemma sbr_same_session: "same_but_recorded s s' \<Longrightarrow> same_session s s'"
  by (simp add: same_session_def sbr_fields)

lemma transfer_same_session: "transfer obs items f s = (f', s') \<Longrightarrow> same_session s s'"
  by (rule sbr_same_session[OF transfer_sbr])

lemma fetch_with_command_events:
  assumes "fetch_with_command e command file s = (res, file', s')"
  shows "(\<exists>err. res = Inl err \<and> trace s' = trace s @ [PassiveMode])
       \<or> (\<exists>err h p. res = Inl err \<and> trace s' = trace s @ [PassiveMode, CheckOut h p None])
       \<or> (\<exists>err h p c. res = Inl err \<and>
             trace s' = trace s @ [PassiveMode, CheckOut h p (Some c), Connect c, Close c, CheckIn c])
       \<or> (\<exists>h p c. trace s' = trace s @ [PassiveMode, CheckOut h p (Some c), Connect c,
                                          ReadStream command, Close c, CheckIn c])"
  using assms
  unfolding fetch_with_command_def fetch_with_command_try_def setup_data_stream_def
    connection_factory_def read_stream_def
  by (auto simp: Let_def log_event_fields control_traffic_fields
           dest!: transfer_trace
           split: prod.splits sum.splits option.splits)

lemma fetch_with_command_same_session:
  assumes "fetch_with_command e command file s = (res, file', s')"
  shows "same_session s s'"
  using assms
  unfolding fetch_with_command_def fetch_with_command_try_def setup_data_stream_def
    connection_factory_def read_stream_def
  by (auto simp: Let_def same_session_def log_event_fields control_traffic_fields
           dest!: transfer_same_session
           split: prod.splits sum.splits option.splits)

lemma get_machine_listing_events:
  assumes "get_machine_listing e req resp s = (res, resp', s')"
  shows "same_session s s' \<and>
        ((\<exists>err. res = Inl err \<and> trace s' = trace s @ [PassiveMode])
       \<or> (\<exists>err h p. res = Inl err \<and> trace s' = trace s @ [PassiveMode, CheckOut h p None])
       \<or> (\<exists>err h p c. res = Inl err \<and>
             trace s' = trace s @ [PassiveMode, CheckOut h p (Some c), Connect c, Close c, CheckIn c])
       \<or> (\<exists>h p c. trace s' = trace s @ [PassiveMode, CheckOut h p (Some c), Connect c,
                 ReadStream (Command ''MLSD'' (path (url_info req))), Close c, CheckIn c]))"
proof -
  obtain r b s1 where F: "fetch_with_command e (Command ''MLSD'' (path (url_info req))) (body resp) s = (r, b, s1)"
    by (metis prod_cases3)
  have S: "s' = s1" using assms F
    by (auto simp: get_machine_listing_def split: sum.splits prod.splits)
  have R: "(\<exists>err. r = Inl err) \<Longrightarrow> (\<exists>err. res = Inl err)" using assms F
    by (auto simp: get_machine_listing_def split: sum.splits prod.splits)
  show ?thesis
    using fetch_with_command_events[OF F] fetch_with_command_same_session[OF F] R
    unfolding S by blast
qed

lemma get_list_listing_events:
  assumes "get_list_listing e req resp s = (res, resp', s')"
  shows "same_session s s' \<and>
        ((\<exists>err. res = Inl err \<and> trace s' = trace s @ [PassiveMode])
       \<or> (\<exists>err h p. res = Inl err \<and> trace s' = trace s @ [PassiveMode, CheckOut h p None])
       \<or> (\<exists>err h p c. res = Inl err \<and>
             trace s' = trace s @ [PassiveMode, CheckOut h p (Some c), Connect c, Close c, CheckIn c])
       \<or> (\<exists>h p c. trace s' = trace s @ [PassiveMode, CheckOut h p (Some c), Connect c,
                 ReadStream (Command ''LIST'' (path (url_info req))), Close c, CheckIn c]))"
proof -
  obtain r b s1 where F: "fetch_with_command e (Command ''LIST'' (path (url_info req))) (body resp) s = (r, b, s1)"
    by (metis prod_cases3)
  have S: "s' = s1" using assms F
    by (auto simp: get_list_listing_def split: sum.splits prod.splits)
  have R: "(\<exists>err. r = Inl err) \<Longrightarrow> (\<exists>err. res = Inl err)" using assms F
    by (auto simp: get_list_listing_def split: sum.splits prod.splits)
  show ?thesis
    using fetch_with_command_events[OF F] fetch_with_command_same_session[OF F] R
    unfolding S by blast
qed

lemma log_in_cases:
  assumes "s_request s = Some r" and "log_in e s = (res, s')"
  shows "same_session s s' \<and>
     ((\<exists>err. res = Inl err \<and> trace s' = trace s @ [Reconnect])
      \<or> trace s' = trace s @ [Reconnect, Login (py_or (username (url_info r)) ''anonymous'')
                                         (py_or (password (url_info r)) ''-wpull@'')])"
  using assms unfolding log_in_def
  by (auto simp: Let_def same_session_def log_event_fields control_traffic_fields
      split: prod.splits option.splits)

lemma init_stream_cases:
  assumes "init_stream e req s = (res, s')"
  shows "(s_connection s \<noteq> None \<and> res = Inl AssertionError \<and> s' = s)
     \<or> (s_connection s = None \<and> (\<exists>err. res = Inl err) \<and> s_connection s' = None
          \<and> trace s' = trace s @ [CheckOut (hostname (url_info req)) (port (url_info req)) None])
     \<or> (s_connection s = None \<and> res = Inr () \<and> (\<exists>c. s_connection s' = Some c
          \<and> trace s' = trace s @ [CheckOut (hostname (url_info req)) (port (url_info req)) (Some c)])
          \<and> s_request s' = Some req \<and> s_recorder_session s' = s_recorder_session s)"
  using assms unfolding init_stream_def
  by (auto simp: Let_def log_event_fields split: sum.splits if_splits)

lemma prepare_fetch_cases:
  assumes "prepare_fetch e req resp file cb s = (res, req1, resp1, s1)"
  shows "(s_connection s \<noteq> None \<and> res = Inl AssertionError \<and> s1 = s \<and> req1 = req \<and> resp1 = resp)
     \<or> (s_connection s = None \<and> (\<exists>err. res = Inl err) \<and> s_connection s1 = None
          \<and> req1 = req \<and> resp1 = resp
          \<and> trace s1 = trace s @ [CheckOut (hostname (url_info req)) (port (url_info req)) None])
     \<or> (s_connection s = None \<and> (\<exists>c. s_connection s1 = Some c
          \<and> req1 = req\<lparr>address := Some (conn_address c)\<rparr> \<and> s_request s1 = Some req1
          \<and> (((\<exists>err. res = Inl err) \<and> trace s1 = trace s @
                  [CheckOut (hostname (url_info req)) (port (url_info req)) (Some c), Reconnect])
              \<or> trace s1 = trace s @
                  [CheckOut (hostname (url_info req)) (port (url_info req)) (Some c), Reconnect,
                   Login (py_or (username (url_info req)) ''anonymous'')
                         (py_or (password (url_info req)) ''-wpull@'')])))"
  using assms unfolding prepare_fetch_def init_stream_def log_in_def
  by (auto simp: Let_def log_event_fields record_event_fields control_traffic_fields
      split: prod.splits sum.splits option.splits if_splits)

lemma new_events_append: "trace s' = trace s @ evs \<Longrightarrow> new_events s s' = evs"
  by (simp add: new_events_def)

lemma body_reset: "body_truncate (body_seek 0 b) = empty_body"
  by (simp add: body_truncate_def body_seek_def empty_body_def)

lemma fetch_file_listing_try_caught:
  assumes "get_machine_listing e req resp s = (Inl (FTPServerError m c), resp1, s1)"
  shows "fetch_file_listing_try e req resp s =
           (if fallback_eligible e c
            then get_list_listing e req (resp1\<lparr>body := empty_body\<rparr>) s1
            else (Inl (FTPServerError m c), resp1\<lparr>body := empty_body\<rparr>, s1))"
  using assms
  by (simp add: fetch_file_listing_try_def fallback_eligible_def body_reset Let_def)

lemma fetch_file_listing_try_other:
  assumes "get_machine_listing e req resp s = (r, resp1, s1)"
    and "\<And>err. r = Inl err \<Longrightarrow> \<not> is_FTPServerError err"
  shows "fetch_file_listing_try e req resp s = (r, resp1, s1)"
  using assms
  by (auto simp: fetch_file_listing_try_def split: sum.splits)

lemma clean_up_fetch_sbr: "clean_up_fetch resp rep s = (resp', s') \<Longrightarrow> same_but_recorded s s'"
  unfolding clean_up_fetch_def Let_def
  by (auto intro: sbr_refl sbr_trans record_event_sbr split: if_splits)

lemma fetch_file_listing_after_error:
  assumes P: "prepare_fetch e req new_ListingResponse file cb s = (Inr u, req1, resp1, s1)"
    and M: "get_machine_listing e req1 resp1 s1 = (Inl (FTPServerError m c), resp2, s2)"
  shows "fetch_file_listing e req file cb s =
          (if fallback_eligible e c
           then (case get_list_listing e req1 (resp2\<lparr>body := empty_body\<rparr>) s2 of
                   (Inl err, resp3, s3) \<Rightarrow> (Inl err, req1, resp3, s3)
                 | (Inr rep, resp3, s3) \<Rightarrow>
                     (case clean_up_fetch resp3 rep s3 of
                        (resp4, s4) \<Rightarrow> (Inr resp4, req1, resp4, s4)))
           else (Inl (FTPServerError m c), req1, resp2\<lparr>body := empty_body\<rparr>, s2))"
  unfolding fetch_file_listing_def P
  by (simp add: fetch_file_listing_try_caught[OF M])

lemmas stub_values = stub_prepared_request_def stub_prepared_response_def
  stub_prepared_session_def stub_failed_response_def stub_failed_session_def
  stub_legacy_response_def stub_legacy_session_def

lemma stub_prepare:
  "prepare_fetch (stub_env mlsd other) (stub_request None None) new_ListingResponse None None
     (new_Session False)
   = (Inr (), stub_prepared_request, stub_prepared_response, stub_prepared_session)"
  by (simp add: run_defs stub_values)

lemma stub_machine_listing:
  "get_machine_listing (stub_env (Inl err) other) stub_prepared_request stub_prepared_response
     stub_prepared_session
   = (Inl err, stub_failed_response, stub_failed_session)"
  by (simp add: run_defs stub_values)




lemma attempts_append: "attempts (a @ b) = attempts a + attempts b"
  by (simp add: attempts_def)

lemma commands_issued_append: "commands_issued (a @ b) = commands_issued a @ commands_issued b"
  by (simp add: commands_issued_def map_filter_def)

lemma logins_append: "logins (a @ b) = logins a @ logins b"
  by (simp add: logins_def map_filter_def)

lemma transfer_events_observed:
  assumes "transfer_events command evs"
  shows "foldl outstanding_step n evs = n" and "attempts evs = 1" and "logins evs = []"
    and "commands_issued evs = [] \<or> commands_issued evs = [command]"
  using assms
  by (auto simp: transfer_events_def attempts_def logins_def commands_issued_def map_filter_def)

lemma fetch_with_command_transfer_events:
  assumes "fetch_with_command e command sink s = (res, file', s')"
  shows "\<exists>evs. trace s' = trace s @ evs \<and> transfer_events command evs"
  using fetch_with_command_events[OF assms] unfolding transfer_events_def by blast

lemma get_machine_listing_transfer_events:
  assumes "get_machine_listing e req resp s = (res, resp', s')"
  shows "\<exists>evs. trace s' = trace s @ evs
           \<and> transfer_events (Command ''MLSD'' (path (url_info req))) evs"
  using get_machine_listing_events[OF assms] unfolding transfer_events_def by blast

lemma get_list_listing_transfer_events:
  assumes "get_list_listing e req resp s = (res, resp', s')"
  shows "\<exists>evs. trace s' = trace s @ evs
           \<and> transfer_events (Command ''LIST'' (path (url_info req))) evs"
  using get_list_listing_events[OF assms] unfolding transfer_events_def by blast

lemma fetch_file_listing_try_cases:
  assumes "fetch_file_listing_try e req resp s = (r, resp', s')"
  shows "(\<exists>resp1. get_machine_listing e req resp s = (r, resp1, s')
            \<and> (\<forall>m c. r = Inl (FTPServerError m c) \<longrightarrow> \<not> fallback_eligible e c))
       \<or> (\<exists>m c resp1 s1. get_machine_listing e req resp s = (Inl (FTPServerError m c), resp1, s1)
            \<and> fallback_eligible e c
            \<and> get_list_listing e req (resp1\<lparr>body := empty_body\<rparr>) s1 = (r, resp', s'))"
proof -
  obtain r1 resp1 s1 where M: "get_machine_listing e req resp s = (r1, resp1, s1)"
    by (metis prod_cases3)
  show ?thesis
  proof (cases r1)
    case (Inr rep)
    then show ?thesis using assms M by (auto simp: fetch_file_listing_try_def)
  next
    case (Inl err)
    show ?thesis
    proof (cases err)
      case (FTPServerError m c)
      then show ?thesis
        using assms M Inl fetch_file_listing_try_caught[of e req resp s m c resp1 s1]
        by (auto split: if_splits)
    qed (use assms M Inl in \<open>auto simp: fetch_file_listing_try_def\<close>)
  qed
qed







lemma fetch_cases:
  assumes "fetch e req file0 cb s = (res, req', resp', s')"
  shows "(\<exists>err. res = Inl err \<and> prepare_fetch e req new_Response file0 cb s = (Inl err, req', resp', s'))
     \<or> (\<exists>u resp1 s1 r b s2.
           prepare_fetch e req new_Response file0 cb s = (Inr u, req', resp1, s1)
           \<and> fetch_with_command e (Command ''RETR'' (path (url_info req'))) (body resp1) s1 = (r, b, s2)
           \<and> same_but_recorded s2 s'
           \<and> ((\<exists>err. r = Inl err \<and> res = Inl err) \<or> (\<exists>rep x. r = Inr rep \<and> res = Inr x)))"
proof -
  obtain r1 req1 resp1 s1 where
    P: "prepare_fetch e req new_Response file0 cb s = (r1, req1, resp1, s1)"
    by (metis prod_cases4)
  show ?thesis
  proof (cases r1)
    case (Inl err)
    then show ?thesis using assms P by (simp add: fetch_def)
  next
    case (Inr u)
    obtain r b s2 where
      F: "fetch_with_command e (Command ''RETR'' (path (url_info req1))) (body resp1) s1 = (r, b, s2)"
      by (metis prod_cases3)
    show ?thesis
    proof (cases r)
      case (Inl err)
      then show ?thesis using assms P Inr F by (auto simp: fetch_def sbr_refl)
    next
      case (Inr rep)
      obtain resp2 s3 where C: "clean_up_fetch (resp1\<lparr>body := b\<rparr>) rep s2 = (resp2, s3)"
        by (metis prod.exhaust)
      show ?thesis using assms P \<open>r1 = Inr u\<close> F Inr C clean_up_fetch_sbr[OF C]
        by (auto simp: fetch_def)
    qed
  qed
qed

lemma fetch_file_listing_cases:
  assumes "fetch_file_listing e req file0 cb s = (res, req', resp', s')"
  shows "(\<exists>err. res = Inl err
           \<and> prepare_fetch e req new_ListingResponse file0 cb s = (Inl err, req', resp', s'))
     \<or> (\<exists>u resp1 s1 r resp2 s2.
           prepare_fetch e req new_ListingResponse file0 cb s = (Inr u, req', resp1, s1)
           \<and> fetch_file_listing_try e req' resp1 s1 = (r, resp2, s2)
           \<and> same_but_recorded s2 s'
           \<and> ((\<exists>err. r = Inl err \<and> res = Inl err) \<or> (\<exists>rep x. r = Inr rep \<and> res = Inr x)))"
proof -
  obtain r1 req1 resp1 s1 where
    P: "prepare_fetch e req new_ListingResponse file0 cb s = (r1, req1, resp1, s1)"
    by (metis prod_cases4)
  show ?thesis
  proof (cases r1)
    case (Inl err)
    then show ?thesis using assms P by (simp add: fetch_file_listing_def)
  next
    case (Inr u)
    obtain r resp2 s2 where
      F: "fetch_file_listing_try e req1 resp1 s1 = (r, resp2, s2)"
      by (metis prod_cases3)
    show ?thesis
    proof (cases r)
      case (Inl err)
      then show ?thesis using assms P Inr F by (auto simp: fetch_file_listing_def sbr_refl)
    next
      case (Inr rep)
      obtain resp3 s3 where C: "clean_up_fetch resp2 rep s2 = (resp3, s3)"
        by (metis prod.exhaust)
      show ?thesis using assms P \<open>r1 = Inr u\<close> F Inr C clean_up_fetch_sbr[OF C]
        by (auto simp: fetch_file_listing_def)
    qed
  qed
qed

lemma fetch_file_listing_try_events:
  assumes "fetch_file_listing_try e req resp s = (r, resp', s')"
  shows "same_session s s' \<and>
       (\<exists>evs. trace s' = trace s @ evs \<and>
          (transfer_events (Command ''MLSD'' (path (url_info req))) evs
           \<or> (\<exists>evs1 evs2. evs = evs1 @ evs2
                 \<and> transfer_events (Command ''MLSD'' (path (url_info req))) evs1
                 \<and> transfer_events (Command ''LIST'' (path (url_info req))) evs2)))"
proof -
  from fetch_file_listing_try_cases[OF assms]
  show ?thesis
  proof (elim disjE exE conjE)
    fix resp1
    assume M: "get_machine_listing e req resp s = (r, resp1, s')"
    show ?thesis
      using get_machine_listing_transfer_events[OF M] get_machine_listing_events[OF M] by blast
  next
    fix m c resp1 s1
    assume M: "get_machine_listing e req resp s = (Inl (FTPServerError m c), resp1, s1)"
      and L: "get_list_listing e req (resp1\<lparr>body := empty_body\<rparr>) s1 = (r, resp', s')"
    obtain evs where E: "trace s1 = trace s @ evs"
      "transfer_events (Command ''MLSD'' (path (url_info req))) evs"
      using get_machine_listing_transfer_events[OF M] by blast
    obtain evs2 where E2: "trace s' = trace s1 @ evs2"
      "transfer_events (Command ''LIST'' (path (url_info req))) evs2"
      using get_list_listing_transfer_events[OF L] by blast
    have A: "same_session s s1" using get_machine_listing_events[OF M] by simp
    have B: "same_session s1 s'" using get_list_listing_events[OF L] by simp
    have "trace s' = trace s @ (evs @ evs2)" using E E2 by simp
    then show ?thesis using E(2) E2(2) same_session_trans[OF A B] by blast
  qed
qed

lemma prepare_fetch_observed:
  assumes "prepare_fetch e req resp file0 cb s = (r, req1, resp1, s1)"
  shows "\<exists>evs. trace s1 = trace s @ evs \<and> attempts evs = 0 \<and> commands_issued evs = []
           \<and> (((\<exists>err. r = Inl err) \<and> logins evs = [])
                \<or> logins evs = [(py_or (username (url_info req)) ''anonymous'',
                                  py_or (password (url_info req)) ''-wpull@'')])"
  using prepare_fetch_cases[OF assms]
  by (elim disjE exE conjE)
     (auto simp: attempts_def commands_issued_def logins_def map_filter_def)

lemma fetch_observed:
  assumes "fetch e req file0 cb s = (res, req', resp', s')"
  shows "\<exists>evs. trace s' = trace s @ evs \<and> attempts evs \<le> 1
           \<and> (((\<exists>err. res = Inl err) \<and> logins evs = [])
                \<or> logins evs = [(py_or (username (url_info req)) ''anonymous'',
                                  py_or (password (url_info req)) ''-wpull@'')])"
proof -
  consider (failed) err where "res = Inl err"
      "prepare_fetch e req new_Response file0 cb s = (Inl err, req', resp', s')"
    | (prepared) u resp1 s1 r b s2 where
      "prepare_fetch e req new_Response file0 cb s = (Inr u, req', resp1, s1)"
      "fetch_with_command e (Command ''RETR'' (path (url_info req'))) (body resp1) s1 = (r, b, s2)"
      "same_but_recorded s2 s'"
    using fetch_cases[OF assms] by blast
  then show ?thesis
  proof cases
    case failed
    then show ?thesis using prepare_fetch_observed[OF failed(2)] by auto
  next
    case prepared
    note P = prepared(1) and F = prepared(2) and S = prepared(3)
    obtain evs where E: "trace s1 = trace s @ evs" "attempts evs = 0"
      "logins evs = [(py_or (username (url_info req)) ''anonymous'',
                      py_or (password (url_info req)) ''-wpull@'')]"
      using prepare_fetch_observed[OF P] by auto
    obtain evs2 where E2: "trace s2 = trace s1 @ evs2"
      "transfer_events (Command ''RETR'' (path (url_info req'))) evs2"
      using fetch_with_command_transfer_events[OF F] by blast
    have "trace s' = trace s @ (evs @ evs2)" using E(1) E2(1) sbr_fields(1)[OF S] by simp
    moreover have "attempts (evs @ evs2) \<le> 1"
      using E(2) transfer_events_observed(2)[OF E2(2)] by (simp add: attempts_append)
    moreover have "logins (evs @ evs2) = [(py_or (username (url_info req)) ''anonymous'',
                      py_or (password (url_info req)) ''-wpull@'')]"
      using E(3) transfer_events_observed(3)[OF E2(2)] by (simp add: logins_append)
    ultimately show ?thesis by blast
  qed
qed

lemma fetch_file_listing_observed:
  assumes "fetch_file_listing e req file0 cb s = (res, req', resp', s')"
  shows "\<exists>evs. trace s' = trace s @ evs \<and> attempts evs \<le> 2
           \<and> (((\<exists>err. res = Inl err) \<and> logins evs = [])
                \<or> logins evs = [(py_or (username (url_info req)) ''anonymous'',
                                  py_or (password (url_info req)) ''-wpull@'')])"
proof -
  consider (failed) err where "res = Inl err"
      "prepare_fetch e req new_ListingResponse file0 cb s = (Inl err, req', resp', s')"
    | (prepared) u resp1 s1 r resp2 s2 where
      "prepare_fetch e req new_ListingResponse file0 cb s = (Inr u, req', resp1, s1)"
      "fetch_file_listing_try e req' resp1 s1 = (r, resp2, s2)"
      "same_but_recorded s2 s'"
    using fetch_file_listing_cases[OF assms] by blast
  then show ?thesis
  proof cases
    case failed
    then show ?thesis using prepare_fetch_observed[OF failed(2)] by auto
  next
    case prepared
    note P = prepared(1) and F = prepared(2) and S = prepared(3)
    obtain evs where E: "trace s1 = trace s @ evs" "attempts evs = 0"
      "logins evs = [(py_or (username (url_info req)) ''anonymous'',
                      py_or (password (url_info req)) ''-wpull@'')]"
      using prepare_fetch_observed[OF P] by auto
    obtain evs2 where E2: "trace s2 = trace s1 @ evs2"
      "attempts evs2 \<le> 2" "logins evs2 = []"
      using fetch_file_listing_try_events[OF F]
      by (auto simp: attempts_append logins_append transfer_events_observed)
    have "trace s' = trace s @ (evs @ evs2)" using E(1) E2(1) sbr_fields(1)[OF S] by simp
    moreover have "attempts (evs @ evs2) \<le> 2"
      using E(2) E2(2) by (simp add: attempts_append)
    moreover have "logins (evs @ evs2) = [(py_or (username (url_info req)) ''anonymous'',
                      py_or (password (url_info req)) ''-wpull@'')]"
      using E(3) E2(3) by (simp add: logins_append)
    ultimately show ?thesis by blast
  qed
qed

lemma prepare_fetch_request:
  assumes "prepare_fetch e req resp file0 cb s = (r, req1, resp1, s1)"
  shows "req1 = (case (s_connection s, s_connection s1) of
                   (None, Some c) \<Rightarrow> req\<lparr>address := Some (conn_address c)\<rparr>
                 | _ \<Rightarrow> req)"
  using prepare_fetch_cases[OF assms]
  by (auto split: option.splits)

lemma fetch_request:
  assumes "fetch e req file0 cb s = (res, req', resp', s')"
  shows "req' = (case (s_connection s, s_connection s') of
                   (None, Some c) \<Rightarrow> req\<lparr>address := Some (conn_address c)\<rparr>
                 | _ \<Rightarrow> req)"
proof -
  consider (failed) err where "res = Inl err"
      "prepare_fetch e req new_Response file0 cb s = (Inl err, req', resp', s')"
    | (prepared) u resp1 s1 r b s2 where
      "prepare_fetch e req new_Response file0 cb s = (Inr u, req', resp1, s1)"
      "fetch_with_command e (Command ''RETR'' (path (url_info req'))) (body resp1) s1 = (r, b, s2)"
      "same_but_recorded s2 s'"
    using fetch_cases[OF assms] by blast
  then show ?thesis
  proof cases
    case failed
    then show ?thesis using prepare_fetch_request[OF failed(2)] by simp
  next
    case prepared
    have "s_connection s' = s_connection s1"
      using fetch_with_command_same_session[OF prepared(2)] sbr_fields(2)[OF prepared(3)]
      by (simp add: same_session_def)
    then show ?thesis using prepare_fetch_request[OF prepared(1)] by simp
  qed
qed

lemma fetch_file_listing_request:
  assumes "fetch_file_listing e req file0 cb s = (res, req', resp', s')"
  shows "req' = (case (s_connection s, s_connection s') of
                   (None, Some c) \<Rightarrow> req\<lparr>address := Some (conn_address c)\<rparr>
                 | _ \<Rightarrow> req)"
proof -
  consider (failed) err where "res = Inl err"
      "prepare_fetch e req new_ListingResponse file0 cb s = (Inl err, req', resp', s')"
    | (prepared) u resp1 s1 r resp2 s2 where
      "prepare_fetch e req new_ListingResponse file0 cb s = (Inr u, req', resp1, s1)"
      "fetch_file_listing_try e req' resp1 s1 = (r, resp2, s2)"
      "same_but_recorded s2 s'"
    using fetch_file_listing_cases[OF assms] by blast
  then show ?thesis
  proof cases
    case failed
    then show ?thesis using prepare_fetch_request[OF failed(2)] by simp
  next
    case prepared
    have "s_connection s' = s_connection s1"
      using fetch_file_listing_try_events[OF prepared(2)] sbr_fields(2)[OF prepared(3)]
      by (simp add: same_session_def)
    then show ?thesis using prepare_fetch_request[OF prepared(1)] by simp
  qed
qed

lemma transfer_payload:
  "pos f = length (content f) \<Longrightarrow>
   content (fst (transfer obs items f s)) = content f @ payload items
   \<and> pos (fst (transfer obs items f s)) = length (content f @ payload items)"
proof (induction obs items f s rule: transfer.induct)
  case (1 obs f s)
  then show ?case by simp
next
  case (2 obs d data xs f s)
  then show ?case by simp
next
  case (3 obs a data xs f s)
  have "pos (if a = act_read then body_write data f else f)
        = length (content (if a = act_read then body_write data f else f))"
    using 3(2) by (auto simp: body_write_def)
  from 3(1)[OF this] show ?case using 3(2) by (auto simp: body_write_def)
qed

lemma read_stream_body:
  assumes "read_stream e command f ds s = (res, f', s')"
    and "pos f = length (content f)"
  shows "content f' = content f @ payload (fst (commander_read_stream e (trace s) command))
         \<and> pos f' = length (content f')"
proof -
  obtain items r where C: "commander_read_stream e (trace s) command = (items, r)"
    by (metis prod.exhaust)
  obtain f1 s1 where T: "transfer ds items f (log_event (ReadStream command) s) = (f1, s1)"
    by (metis prod.exhaust)
  have "f' = f1" using assms(1) C T by (simp add: read_stream_def)
  moreover have "f1 = fst (transfer ds items f (log_event (ReadStream command) s))"
    using T by simp
  ultimately show ?thesis
    using transfer_payload[OF assms(2), of ds items "log_event (ReadStream command) s"] C
    by simp
qed

lemma fetch_with_command_body:
  assumes "fetch_with_command e command f s = (res, f', s')"
    and "pos f = length (content f)"
  shows "(f' = f \<and> (\<exists>err. res = Inl err))
       \<or> (\<exists>h. content f' = content f @ payload (fst (commander_read_stream e h command))
              \<and> pos f' = length (content f'))"
proof -
  obtain r dc s1 where S: "setup_data_stream e s = (r, dc, s1)"
    by (metis prod_cases3)
  show ?thesis
  proof (cases r)
    case (Inl err)
    then show ?thesis using assms(1) S
      by (auto simp: fetch_with_command_def fetch_with_command_try_def Let_def)
  next
    case (Inr ds)
    obtain r2 f2 s2 where
      R: "read_stream e command f (if s_recorder_session s1 then ds @ [Data_callback] else ds) s1
          = (r2, f2, s2)"
      by (metis prod_cases3)
    have "f' = f2" using assms(1) S Inr R
      by (auto simp: fetch_with_command_def fetch_with_command_try_def Let_def)
    then show ?thesis using read_stream_body[OF R assms(2)] by blast
  qed
qed

lemma body_read_content:
  "body_read (body_seek 0 b) = (data, b1) \<Longrightarrow> content b1 = content b"
  by (auto simp: body_read_def body_seek_def)

lemma get_list_listing_body:
  assumes "get_list_listing e req resp s = (res, resp', s')"
    and "body resp = \<lparr>content = [], pos = 0\<rparr>"
  shows "content (body resp') = []
       \<or> (\<exists>h. content (body resp')
               = payload (fst (commander_read_stream e h (Command ''LIST'' (path (url_info req))))))"
proof -
  obtain r b s1 where
    F: "fetch_with_command e (Command ''LIST'' (path (url_info req))) (body resp) s = (r, b, s1)"
    by (metis prod_cases3)
  have B: "content b = []
       \<or> (\<exists>h. content b
               = payload (fst (commander_read_stream e h (Command ''LIST'' (path (url_info req))))))"
    using fetch_with_command_body[OF F] assms(2) by auto
  have "content (body resp') = content b"
    using assms(1) F
    by (auto simp: get_list_listing_def dest: body_read_content split: sum.splits prod.splits)
  then show ?thesis using B by simp
qed

lemma clean_up_fetch_content:
  "clean_up_fetch resp rep s = (resp', s') \<Longrightarrow> content (body resp') = content (body resp)"
  by (auto simp: clean_up_fetch_def Let_def body_seek_def)

lemma stub_list_listing_fails:
  "get_list_listing (stub_env mlsd (Inl err)) stub_prepared_request
     (stub_failed_response\<lparr>body := \<lparr>content = [], pos = 0\<rparr>\<rparr>) stub_failed_session
   = (Inl err, stub_legacy_response, stub_legacy_session)"
  by (simp add: run_defs stub_values)

lemma stub_eligible:
  "fallback_eligible (stub_env mlsd other) (Some 502)"
  "fallback_eligible (stub_env mlsd other) (Some 500)"
  "\<not> fallback_eligible (stub_env mlsd other) (Some 550)"
  by (simp_all add: fallback_eligible_def stub_env_def)

lemma empty_body_literal: "empty_body = \<lparr>content = [], pos = 0\<rparr>"
  by (simp add: empty_body_def)

lemma listing_after_error_events:
  assumes P: "prepare_fetch e req new_ListingResponse file0 cb s = (Inr u, req1, resp1, s1)"
    and M: "get_machine_listing e req1 resp1 s1 = (Inl (FTPServerError m c), resp2, s2)"
    and R: "fetch_file_listing e req file0 cb s = (res, req', resp', s')"
  shows "if fallback_eligible e c
         then (\<exists>evs. trace s' = trace s2 @ evs
                 \<and> transfer_events (Command ''LIST'' (path (url_info req1))) evs)
              \<and> (content (body resp') = []
                  \<or> (\<exists>h. content (body resp')
                        = payload (fst (commander_read_stream e h
                                         (Command ''LIST'' (path (url_info req1)))))))
         else res = Inl (FTPServerError m c) \<and> req' = req1
              \<and> resp' = resp2\<lparr>body := \<lparr>content = [], pos = 0\<rparr>\<rparr> \<and> s' = s2"
proof (cases "fallback_eligible e c")
  case False
  then show ?thesis
    using fetch_file_listing_after_error[OF P M] R by (simp add: empty_body_literal)
next
  case True
  obtain r3 resp3 s3 where
    L: "get_list_listing e req1 (resp2\<lparr>body := empty_body\<rparr>) s2 = (r3, resp3, s3)"
    by (metis prod_cases3)
  have B0: "body (resp2\<lparr>body := empty_body\<rparr>) = \<lparr>content = [], pos = 0\<rparr>"
    by (simp add: empty_body_literal)
  note E = get_list_listing_transfer_events[OF L]
  note B = get_list_listing_body[OF L B0]
  show ?thesis
  proof (cases r3)
    case (Inl err)
    have "resp' = resp3" "s' = s3"
      using fetch_file_listing_after_error[OF P M] R True L Inl by simp_all
    then show ?thesis using True E B by simp
  next
    case (Inr rep)
    obtain resp4 s4 where C: "clean_up_fetch resp3 rep s3 = (resp4, s4)"
      by (metis prod.exhaust)
    have "resp' = resp4" "s' = s4"
      using fetch_file_listing_after_error[OF P M] R True L Inr C by simp_all
    then show ?thesis
      using True E B clean_up_fetch_content[OF C] sbr_fields(1)[OF clean_up_fetch_sbr[OF C]]
      by simp
  qed
qed

lemma prepare_fetch_url_info:
  assumes "prepare_fetch e req resp file0 cb s = (r, req1, resp1, s1)"
  shows "url_info req1 = url_info req"
  using prepare_fetch_request[OF assms] by (simp split: option.splits)

lemma fetch_file_listing_attempts:
  "attempts (new_events s0 (snd (snd (snd (fetch_file_listing e req file0 cb s0))))) \<le> 2"
proof -
  obtain res req' resp' s' where
    R: "fetch_file_listing e req file0 cb s0 = (res, req', resp', s')"
    by (metis prod_cases4)
  obtain evs where "trace s' = trace s0 @ evs" "attempts evs \<le> 2"
    using fetch_file_listing_observed[OF R] by blast
  then show ?thesis unfolding R by (simp add: new_events_def)
qed

section \<open>Releasing the control connection: \<open>clean\<close> and \<open>close\<close>\<close>

text \<open>
  Claim C3, as the code has it. \<open>clean\<close> and \<open>close\<close> change no field of the session. With
  no control connection held they make no call and do not raise, so repeating \<open>clean\<close>
  changes nothing. With one held, every \<open>clean\<close> makes one \<open>check_in\<close> call for that same
  connection, two calls make two check-ins where one call makes one, and \<open>clean\<close> raises
  exactly what that call raises; \<open>close\<close> after \<open>clean\<close> makes one \<open>close\<close> call on the held
  connection and raises exactly what that call raises.
\<close>

theorem clean_close_effect:
  "(case s_connection s of
      None \<Rightarrow>
        clean ci s = (Inr (), s) \<and> close cl s = (Inr (), s)
        \<and> clean ci (snd (clean ci s)) = clean ci s
        \<and> close cl (snd (clean ci s)) = (Inr (), s)
    | Some c \<Rightarrow>
        clean ci s =
          (case ci (trace s) c of None \<Rightarrow> Inr () | Some err \<Rightarrow> Inl err,
           s\<lparr>trace := trace s @ [CheckIn c]\<rparr>)
        \<and> close cl s =
          (case cl (trace s) c of None \<Rightarrow> Inr () | Some err \<Rightarrow> Inl err,
           s\<lparr>trace := trace s @ [Close c]\<rparr>)
        \<and> clean ci (snd (clean ci s)) =
          (case ci (trace s @ [CheckIn c]) c of None \<Rightarrow> Inr () | Some err \<Rightarrow> Inl err,
           s\<lparr>trace := trace s @ [CheckIn c, CheckIn c]\<rparr>)
        \<and> close cl (snd (clean ci s)) =
          (case cl (trace s @ [CheckIn c]) c of None \<Rightarrow> Inr () | Some err \<Rightarrow> Inl err,
           s\<lparr>trace := trace s @ [CheckIn c, Close c]\<rparr>))
   \<and> same_session s (snd (clean ci s)) \<and> same_session s (snd (close cl s))"
  by (simp add: clean_def close_def log_event_def same_session_def split: option.splits)

text \<open>
  Claim C3 as stated fails on a session that holds its control connection, here the
  session after the stub fetch. The second \<open>clean\<close> reaches the pool with a second check-in
  of the same connection: a pool that counts outstanding check-outs is left at 0 by one
  call and at -1 by two, and a pool that refuses the check-in of a connection it has
  already got back makes the second \<open>clean\<close> raise where the first returned. And when the
  connection's \<open>close\<close> raises, so does \<open>close\<close> after \<open>clean\<close>.
\<close>

theorem clean_twice_counterexample:
  "trace (snd (clean stub_returns (snd (clean stub_returns stub_fetched))))
     \<noteq> trace (snd (clean stub_returns stub_fetched))
   \<and> outstanding (trace (snd (clean stub_returns stub_fetched))) = 0
   \<and> outstanding (trace (snd (clean stub_returns (snd (clean stub_returns stub_fetched))))) = - 1
   \<and> fst (clean stub_strict_check_in stub_fetched) = Inr ()
   \<and> fst (clean stub_strict_check_in (snd (clean stub_strict_check_in stub_fetched)))
       = Inl (OtherError ''KeyError'')
   \<and> fst (close stub_close_raises (snd (clean stub_returns stub_fetched)))
       = Inl (OtherError ''OSError'')"
  by (simp add: clean_def close_def log_event_def stub_fetched_connection stub_fetched_trace
      outstanding_def stub_returns_def stub_strict_check_in_def stub_close_raises_def)

section \<open>One control connection per session\<close>

text \<open>
  Claim C9. On a session that holds a control connection, stream initialisation fails its
  assertion before it reaches the pool: \<open>_init_stream\<close>, \<open>fetch\<close> and \<open>fetch_file_listing\<close>
  raise \<open>AssertionError\<close> and leave the session, its trace included, as it was, so no second
  control connection is checked out. Neither \<open>clean\<close> nor \<open>close\<close> makes the session let go
  of the connection, so this holds for the rest of the session's life.
\<close>

theorem held_connection_blocks_checkout:
  "s_connection s = Some c \<Longrightarrow>
     init_stream e req s = (Inl AssertionError, s)
     \<and> fetch e req file cb s = (Inl AssertionError, req, new_Response, s)
     \<and> fetch_file_listing e req file cb' s = (Inl AssertionError, req, new_ListingResponse, s)
     \<and> s_connection (snd (clean ci s)) = Some c
     \<and> s_connection (snd (close cl s)) = Some c"
  by (simp add: init_stream_def fetch_def fetch_file_listing_def prepare_fetch_def
      clean_def close_def log_event_def split: option.splits)

theorem held_connection_blocks_checkout_witness:
  "s_connection stub_fetched = Some (Connection (''example.com'', 21) 0)
   \<and> fetch (stub_env (Inr ok_reply) (Inr ok_reply)) (stub_request None None) None None
         stub_fetched
       = (Inl AssertionError, stub_request None None, new_Response, stub_fetched)
   \<and> fetch_file_listing (stub_env (Inr ok_reply) (Inr ok_reply)) (stub_request None None)
         None None stub_fetched
       = (Inl AssertionError, stub_request None None, new_ListingResponse, stub_fetched)"
  using held_connection_blocks_checkout [OF stub_fetched_connection]
    stub_fetched_connection
  by simp

section \<open>The data connection is released on every path\<close>


section \<open>Login credentials\<close>

text \<open>
  Claim C7, as the code has it. Every login a \<open>fetch\<close> or \<open>fetch_file_listing\<close> performs uses,
  for the user name and for the password separately, the value of the request when it is
  present and not empty, and the default (\<open>anonymous\<close>, \<open>-wpull@\<close>) when it is absent or
  the empty string. A call that returns has logged in exactly once; a call that raises has
  logged in at most once.
\<close>

theorem login_credentials:
  "(case fetch e req file0 cb s of
      (res, req', resp', s') \<Rightarrow>
        trace s' = trace s @ new_events s s'
        \<and> (case res of
             Inr x \<Rightarrow>
               logins (new_events s s') = [(py_or (username (url_info req)) ''anonymous'',
                                            py_or (password (url_info req)) ''-wpull@'')]
           | Inl err \<Rightarrow>
               logins (new_events s s') = []
               \<or> logins (new_events s s') = [(py_or (username (url_info req)) ''anonymous'',
                                               py_or (password (url_info req)) ''-wpull@'')]))
   \<and> (case fetch_file_listing e req file0 cb' s of
      (res, req', resp', s') \<Rightarrow>
        trace s' = trace s @ new_events s s'
        \<and> (case res of
             Inr x \<Rightarrow>
               logins (new_events s s') = [(py_or (username (url_info req)) ''anonymous'',
                                            py_or (password (url_info req)) ''-wpull@'')]
           | Inl err \<Rightarrow>
               logins (new_events s s') = []
               \<or> logins (new_events s s') = [(py_or (username (url_info req)) ''anonymous'',
                                               py_or (password (url_info req)) ''-wpull@'')]))
   \<and> py_or None d = d \<and> py_or (Some []) d = d \<and> py_or (Some (x # xs)) d = x # xs"
proof -
  have A: "\<And>res req' resp' s'. fetch e req file0 cb s = (res, req', resp', s') \<Longrightarrow>
        trace s' = trace s @ new_events s s'
        \<and> (case res of
             Inr x \<Rightarrow>
               logins (new_events s s') = [(py_or (username (url_info req)) ''anonymous'',
                                            py_or (password (url_info req)) ''-wpull@'')]
           | Inl err \<Rightarrow>
               logins (new_events s s') = []
               \<or> logins (new_events s s') = [(py_or (username (url_info req)) ''anonymous'',
                                               py_or (password (url_info req)) ''-wpull@'')])"
    using fetch_observed by (fastforce simp: new_events_def split: sum.splits)
  have B: "\<And>res req' resp' s'. fetch_file_listing e req file0 cb' s = (res, req', resp', s') \<Longrightarrow>
        trace s' = trace s @ new_events s s'
        \<and> (case res of
             Inr x \<Rightarrow>
               logins (new_events s s') = [(py_or (username (url_info req)) ''anonymous'',
                                            py_or (password (url_info req)) ''-wpull@'')]
           | Inl err \<Rightarrow>
               logins (new_events s s') = []
               \<or> logins (new_events s s') = [(py_or (username (url_info req)) ''anonymous'',
                                               py_or (password (url_info req)) ''-wpull@'')])"
    using fetch_file_listing_observed by (fastforce simp: new_events_def split: sum.splits)
  show ?thesis using A B by (auto simp: py_or_def split: prod.splits)
qed

text \<open>
  Claim C7 as stated fails for a request that supplies the empty string: with an empty
  user name and an empty password the stub fetch logs in as \<open>anonymous\<close> with \<open>-wpull@\<close>,
  not with the supplied values.
\<close>

theorem login_credentials_counterexample:
  "username (url_info (stub_request (Some []) (Some []))) = Some []
   \<and> password (url_info (stub_request (Some []) (Some []))) = Some []
   \<and> logins (trace (snd (snd (snd (fetch (stub_env (Inr ok_reply) (Inr ok_reply))
                (stub_request (Some []) (Some [])) None None (new_Session False))))))
       = [(''anonymous'', ''-wpull@'')]"
  by (simp add: run_defs logins_def map_filter_def)

section \<open>The request only gains its address\<close>

text \<open>
  Claim C8. After \<open>fetch\<close> or \<open>fetch_file_listing\<close>, returned or raised, the request is the
  one passed in with, at most, its address assigned: the address is set to that of the
  control connection exactly when the call acquired one (the session held none before
  and holds one after), and the request is untouched otherwise. The URL information
  (scheme, host, port, path, user name and password) is the same in every case.
\<close>

theorem request_only_gains_address:
  "(case fetch e req file0 cb s of
      (res, req', resp', s') \<Rightarrow>
        req' = (case (s_connection s, s_connection s') of
                  (None, Some c) \<Rightarrow> req\<lparr>address := Some (conn_address c)\<rparr>
                | _ \<Rightarrow> req)
        \<and> url_info req' = url_info req)
   \<and> (case fetch_file_listing e req file0 cb' s of
      (res, req', resp', s') \<Rightarrow>
        req' = (case (s_connection s, s_connection s') of
                  (None, Some c) \<Rightarrow> req\<lparr>address := Some (conn_address c)\<rparr>
                | _ \<Rightarrow> req)
        \<and> url_info req' = url_info req)"
proof -
  have U: "\<And>a b (r :: Request) r'.
      r' = (case (a, b) of
              (None, Some c) \<Rightarrow> r\<lparr>address := Some (conn_address c)\<rparr>
            | _ \<Rightarrow> r) \<Longrightarrow> url_info r' = url_info r"
    by (simp split: option.splits)
  obtain res req' resp' s' where F: "fetch e req file0 cb s = (res, req', resp', s')"
    by (metis prod_cases4)
  obtain res2 req2 resp2 s2 where
    L: "fetch_file_listing e req file0 cb' s = (res2, req2, resp2, s2)"
    by (metis prod_cases4)
  note A = fetch_request[OF F] and B = fetch_file_listing_request[OF L]
  show ?thesis
    unfolding F L using A B U[OF A] U[OF B] by simp
qed

section \<open>The listing fallback\<close>

text \<open>
  Claim C2. Take a \<open>fetch_file_listing\<close> call that got through its preparation and whose
  machine listing raised an \<open>FTPServerError\<close> with reply code \<open>c\<close>, leaving the session at
  \<open>s2\<close>. The session then hands the legacy command \<open>LIST\<close> to the data transfer step if and
  only if \<open>c\<close> is the code for a command that is not recognised or the code for one that
  is not implemented: in that case what the call adds to the trace after \<open>s2\<close> is exactly
  one data transfer for \<open>LIST\<close> on the path of the request; in every other case the call
  raises the same error and the session stays at \<open>s2\<close>, with no further call on any
  collaborator.
\<close>

theorem listing_fallback_decision:
  assumes P: "prepare_fetch e req new_ListingResponse file0 cb s = (Inr u, req1, resp1, s1)"
    and M: "get_machine_listing e req1 resp1 s1 = (Inl (FTPServerError m c), resp2, s2)"
  shows "(case fetch_file_listing e req file0 cb s of
            (res, req', resp', s') \<Rightarrow>
              trace s' = trace s2 @ new_events s2 s'
              \<and> attempts (new_events s2 s') = (if fallback_eligible e c then 1 else 0)
              \<and> (if fallback_eligible e c
                  then transfer_events (Command ''LIST'' (path (url_info req))) (new_events s2 s')
                  else res = Inl (FTPServerError m c) \<and> s' = s2))
         \<and> fallback_eligible e c
             = (c = Some (syntax_error_command_unrecognized e)
                \<or> c = Some (command_not_implemented e))
         \<and> fetch_file_listing_try e req1 resp1 s1
             = (if fallback_eligible e c
                then get_list_listing e req1 (resp2\<lparr>body := \<lparr>content = [], pos = 0\<rparr>\<rparr>) s2
                else (Inl (FTPServerError m c), resp2\<lparr>body := \<lparr>content = [], pos = 0\<rparr>\<rparr>, s2))"
proof -
  obtain res req' resp' s' where
    R: "fetch_file_listing e req file0 cb s = (res, req', resp', s')"
    by (metis prod_cases4)
  note A = listing_after_error_events[OF P M R]
  note U = prepare_fetch_url_info[OF P]
  have 1: "trace s' = trace s2 @ new_events s2 s'
        \<and> attempts (new_events s2 s') = (if fallback_eligible e c then 1 else 0)
        \<and> (if fallback_eligible e c
            then transfer_events (Command ''LIST'' (path (url_info req))) (new_events s2 s')
            else res = Inl (FTPServerError m c) \<and> s' = s2)"
  proof (cases "fallback_eligible e c")
    case True
    then obtain evs where E: "trace s' = trace s2 @ evs"
      "transfer_events (Command ''LIST'' (path (url_info req))) evs"
      using A U by auto
    have "new_events s2 s' = evs" using E(1) by (rule new_events_append)
    then show ?thesis using True E transfer_events_observed(2)[OF E(2)] by simp
  next
    case False
    then show ?thesis using A by (simp add: new_events_def attempts_def)
  qed
  have 2: "fetch_file_listing_try e req1 resp1 s1
             = (if fallback_eligible e c
                then get_list_listing e req1 (resp2\<lparr>body := \<lparr>content = [], pos = 0\<rparr>\<rparr>) s2
                else (Inl (FTPServerError m c), resp2\<lparr>body := \<lparr>content = [], pos = 0\<rparr>\<rparr>, s2))"
    using fetch_file_listing_try_caught[OF M] by (simp add: empty_body_literal)
  show ?thesis unfolding R using 1 2 by (simp add: fallback_eligible_def)
qed

text \<open>
  Claim C4. When the reply code of the failed machine listing is eligible for the fallback,
  the legacy listing is run on the response with its body reset to no content at position
  0, whatever the failed attempt had written. So the body the call leaves behind holds
  nothing, or exactly what the legacy transfer read from its data stream: no byte of the
  failed attempt is in it.
\<close>

theorem fallback_starts_on_empty_sink:
  assumes P: "prepare_fetch e req new_ListingResponse file0 cb s = (Inr u, req1, resp1, s1)"
    and M: "get_machine_listing e req1 resp1 s1 = (Inl (FTPServerError m c), resp2, s2)"
    and E: "fallback_eligible e c"
  shows "fetch_file_listing_try e req1 resp1 s1
           = get_list_listing e req1 (resp2\<lparr>body := \<lparr>content = [], pos = 0\<rparr>\<rparr>) s2
         \<and> (case fetch_file_listing e req file0 cb s of
              (res, req', resp', s') \<Rightarrow>
                content (body resp') = []
                \<or> (\<exists>h. content (body resp')
                      = payload (fst (commander_read_stream e h
                                       (Command ''LIST'' (path (url_info req)))))))"
proof -
  obtain res req' resp' s' where
    R: "fetch_file_listing e req file0 cb s = (res, req', resp', s')"
    by (metis prod_cases4)
  note A = listing_after_error_events[OF P M R]
  note U = prepare_fetch_url_info[OF P]
  have 2: "fetch_file_listing_try e req1 resp1 s1
             = get_list_listing e req1 (resp2\<lparr>body := \<lparr>content = [], pos = 0\<rparr>\<rparr>) s2"
    using fetch_file_listing_try_caught[OF M] E by (simp add: empty_body_literal)
  show ?thesis unfolding R using A E U 2 by simp
qed

text \<open>
  Claim C10. When the reply code of the failed machine listing is not eligible for the
  fallback, the call raises that same error, and the body of the response has been reset
  to no content at position 0 all the same: the reset comes before the test of the code.
\<close>

theorem ineligible_error_leaves_empty_sink:
  assumes P: "prepare_fetch e req new_ListingResponse file0 cb s = (Inr u, req1, resp1, s1)"
    and M: "get_machine_listing e req1 resp1 s1 = (Inl (FTPServerError m c), resp2, s2)"
    and N: "\<not> fallback_eligible e c"
  shows "fetch_file_listing e req file0 cb s
         = (Inl (FTPServerError m c), req1, resp2\<lparr>body := \<lparr>content = [], pos = 0\<rparr>\<rparr>, s2)"
  using fetch_file_listing_after_error[OF P M] N by (simp add: empty_body_literal)

text \<open>
  Claim C5. When the legacy listing, started as the fallback, raises too, the call raises
  the error of the legacy attempt and stops where that attempt left the session: two data
  transfers were attempted in the call, and no call of \<open>fetch_file_listing\<close> ever attempts
  more than two.
\<close>

theorem fallback_is_single_shot:
  assumes P: "prepare_fetch e req new_ListingResponse file0 cb s = (Inr u, req1, resp1, s1)"
    and M: "get_machine_listing e req1 resp1 s1 = (Inl (FTPServerError m c), resp2, s2)"
    and E: "fallback_eligible e c"
    and L: "get_list_listing e req1 (resp2\<lparr>body := \<lparr>content = [], pos = 0\<rparr>\<rparr>) s2
            = (Inl err2, resp3, s3)"
  shows "fetch_file_listing e req file0 cb s = (Inl err2, req1, resp3, s3)
         \<and> attempts (new_events s s3) = 2
         \<and> (\<forall>e' req' file' cb' s0.
               attempts (new_events s0
                  (snd (snd (snd (fetch_file_listing e' req' file' cb' s0))))) \<le> 2)"
proof -
  have 1: "fetch_file_listing e req file0 cb s = (Inl err2, req1, resp3, s3)"
    using fetch_file_listing_after_error[OF P M] E L by (simp add: empty_body_literal)
  obtain pe where PE: "trace s1 = trace s @ pe" "attempts pe = 0"
    using prepare_fetch_observed[OF P] by blast
  obtain e1 where E1: "trace s2 = trace s1 @ e1"
    "transfer_events (Command ''MLSD'' (path (url_info req1))) e1"
    using get_machine_listing_transfer_events[OF M] by blast
  obtain e2 where E2: "trace s3 = trace s2 @ e2"
    "transfer_events (Command ''LIST'' (path (url_info req1))) e2"
    using get_list_listing_transfer_events[OF L] by blast
  have "trace s3 = trace s @ (pe @ e1 @ e2)" using PE(1) E1(1) E2(1) by simp
  then have "new_events s s3 = pe @ e1 @ e2" by (rule new_events_append)
  then have 2: "attempts (new_events s s3) = 2"
    using PE(2) transfer_events_observed(2)[OF E1(2)] transfer_events_observed(2)[OF E2(2)]
    by (simp add: attempts_append)
  show ?thesis using 1 2 fetch_file_listing_attempts by blast
qed

end
